theory Spec2Isabelle
  imports Main "HOL-Library.Word"
begin

section \<open>The user model of lenslocked (package models)\<close>

text \<open>
  The package layers three implementations of the \<open>UserDB\<close> interface:
  \<open>userService\<close> wraps \<open>userValidator\<close>, which wraps \<open>userGorm\<close>. Everything outside
  the package (the database handle of gorm, bcrypt, the keyed hash of package hash and the
  token generator of package rand) is a parameter of the model. Effects are threaded through
  an explicit world \<open>'w\<close>: the database and the entropy source live there. A Go function that
  takes a \<open>*User\<close> and mutates it returns the updated record next to its error.
\<close>

subsection \<open>Errors\<close>

text \<open>
  The sentinel errors of the package, the two sentinels of the libraries that the code
  compares against (\<open>bcrypt.ErrMismatchedHashAndPassword\<close>, \<open>gorm.ErrRecordNotFound\<close>),
  and any other error value. A nil error is \<open>None\<close>.
\<close>

datatype error =
    ErrNotFound
  | ErrInvalidID
  | ErrInvalidPassword
  | ErrMismatchedHashAndPassword
  | ErrRecordNotFound
  | ErrOther string

definition userPwPepper :: string where
  "userPwPepper = ''random-string-as-pepper''"

definition hmacSecretKey :: string where
  "hmacSecretKey = ''secret-hmac-key''"

definition DefaultCost :: nat where
  "DefaultCost = 10"

subsection \<open>The user record\<close>

text \<open>
  \<open>ID\<close> is the \<open>uint\<close> of the embedded \<open>gorm.Model\<close>, 64 bits wide on the platforms
  the program is built for; the timestamps of \<open>gorm.Model\<close> are not read by the package
  and are left in the record's extension.
\<close>

record User =
  ID :: "64 word"
  Name :: string
  Email :: string
  Password :: string
  PasswordHash :: string
  Remember :: string
  RememberHash :: string
  Age :: int

text \<open>The zero value of the struct: \<open>var user User\<close>.\<close>

definition zeroUser :: User where
  "zeroUser = \<lparr>ID = 0, Name = [], Email = [], Password = [], PasswordHash = [],
     Remember = [], RememberHash = [], Age = 0\<rparr>"

subsection \<open>The interface UserDB and the libraries\<close>

text \<open>
  A lookup returns the pair \<open>(*User, error)\<close> of Go: the pointer may be nil (\<open>None\<close>)
  whatever the error is. \<open>Create\<close> and \<open>Update\<close> receive a pointer and may write through it.
\<close>

type_synonym 'w lookup = "'w \<Rightarrow> (User option \<times> error option) \<times> 'w"

type_synonym 'w userValFn = "User \<Rightarrow> 'w \<Rightarrow> (error option \<times> User) \<times> 'w"

record 'w UserDB =
  ByID :: "64 word \<Rightarrow> 'w lookup"
  ByEmail :: "string \<Rightarrow> 'w lookup"
  ByRemember :: "string \<Rightarrow> 'w lookup"
  Create :: "'w userValFn"
  Update :: "'w userValFn"
  Delete :: "64 word \<Rightarrow> 'w \<Rightarrow> error option \<times> 'w"

text \<open>
  The functions the package calls from outside: \<open>bcrypt.GenerateFromPassword\<close>,
  \<open>bcrypt.CompareHashAndPassword\<close>, \<open>rand.RememberToken\<close> and \<open>hash.NewHMAC\<close> (whose
  result is used through its method \<open>Hash\<close> only). Packages \<open>hash\<close> and \<open>rand\<close> belong to
  the repository, but their files are not among the sources at hand, so they are parameters
  like the libraries. \<open>GenerateFromPassword\<close> draws a salt and \<open>RememberToken\<close> draws a
  token from the entropy source, so both pass the world on; \<open>CompareHashAndPassword\<close> and
  the keyed hash are pure.
\<close>

record 'w Libs =
  GenerateFromPassword :: "string \<Rightarrow> nat \<Rightarrow> 'w \<Rightarrow> (error + string) \<times> 'w"
  CompareHashAndPassword :: "string \<Rightarrow> string \<Rightarrow> error option"
  RememberToken :: "'w \<Rightarrow> (error + string) \<times> 'w"
  NewHMAC :: "string \<Rightarrow> string \<Rightarrow> string"

text \<open>The queries the package builds with \<open>db.Where\<close>.\<close>

datatype query =
    WhereID "64 word"
  | WhereEmail string
  | WhereAge int
  | WhereRememberHash string

text \<open>
  The handle \<open>*gorm.DB\<close>: \<open>First\<close> fills the destination it is given and reports an error,
  \<open>gormCreate\<close> and \<open>Save\<close> may write through the pointer (the ID, the timestamps).
\<close>

record 'w gormDB =
  First :: "query \<Rightarrow> User \<Rightarrow> 'w \<Rightarrow> (User \<times> error option) \<times> 'w"
  gormCreate :: "User \<Rightarrow> 'w \<Rightarrow> (User \<times> error option) \<times> 'w"
  Save :: "User \<Rightarrow> 'w \<Rightarrow> (User \<times> error option) \<times> 'w"
  gormDelete :: "User \<Rightarrow> 'w \<Rightarrow> error option \<times> 'w"

subsection \<open>userGorm: the database layer\<close>

definition first :: "'w gormDB \<Rightarrow> query \<Rightarrow> User \<Rightarrow> 'w \<Rightarrow> (User \<times> error option) \<times> 'w" where
  "first db q dst w =
     (case First db q dst w of
        ((dst', err), w') \<Rightarrow>
          if err = Some ErrRecordNotFound then ((dst', Some ErrNotFound), w')
          else ((dst', err), w'))"

definition userGorm_ByID :: "'w gormDB \<Rightarrow> 64 word \<Rightarrow> 'w lookup" where
  "userGorm_ByID db i w =
     (case first db (WhereID i) zeroUser w of
        ((user, Some err), w') \<Rightarrow> ((None, Some err), w')
      | ((user, None), w') \<Rightarrow> ((Some user, None), w'))"

definition userGorm_ByEmail :: "'w gormDB \<Rightarrow> string \<Rightarrow> 'w lookup" where
  "userGorm_ByEmail db email w =
     (case first db (WhereEmail email) zeroUser w of
        ((user, err), w') \<Rightarrow> ((Some user, err), w'))"

definition userGorm_ByAge :: "'w gormDB \<Rightarrow> int \<Rightarrow> 'w lookup" where
  "userGorm_ByAge db age w =
     (case first db (WhereAge age) zeroUser w of
        ((user, Some err), w') \<Rightarrow> ((None, Some err), w')
      | ((user, None), w') \<Rightarrow> ((Some user, None), w'))"

definition userGorm_ByRemember :: "'w gormDB \<Rightarrow> string \<Rightarrow> 'w lookup" where
  "userGorm_ByRemember db rememberHash w =
     (case first db (WhereRememberHash rememberHash) zeroUser w of
        ((user, Some err), w') \<Rightarrow> ((None, Some err), w')
      | ((user, None), w') \<Rightarrow> ((Some user, None), w'))"

definition userGorm_Create :: "'w gormDB \<Rightarrow> 'w userValFn" where
  "userGorm_Create db user w =
     (case gormCreate db user w of ((user', err), w') \<Rightarrow> ((err, user'), w'))"

definition userGorm_Update :: "'w gormDB \<Rightarrow> 'w userValFn" where
  "userGorm_Update db user w =
     (case Save db user w of ((user', err), w') \<Rightarrow> ((err, user'), w'))"

definition userGorm_Delete :: "'w gormDB \<Rightarrow> 64 word \<Rightarrow> 'w \<Rightarrow> error option \<times> 'w" where
  "userGorm_Delete db i w = gormDelete db (zeroUser\<lparr>ID := i\<rparr>) w"

text \<open>The method set of \<open>*userGorm\<close>, as a value of the interface.\<close>

definition userGorm :: "'w gormDB \<Rightarrow> 'w UserDB" where
  "userGorm db =
     \<lparr>ByID = userGorm_ByID db, ByEmail = userGorm_ByEmail db,
      ByRemember = userGorm_ByRemember db, Create = userGorm_Create db,
      Update = userGorm_Update db, Delete = userGorm_Delete db\<rparr>"

subsection \<open>userValidator: the validation layer\<close>

record 'w userValidator =
  uvUserDB :: "'w UserDB"
  hmac :: "string \<Rightarrow> string"

fun runUserValFns ::
  "User \<Rightarrow> 'w userValFn list \<Rightarrow> 'w \<Rightarrow> (error option \<times> User) \<times> 'w" where
  "runUserValFns user [] w = ((None, user), w)"
| "runUserValFns user (fn # fns) w =
     (case fn user w of
        ((Some err, user'), w') \<Rightarrow> ((Some err, user'), w')
      | ((None, user'), w') \<Rightarrow> runUserValFns user' fns w')"

definition bcryptPassword :: "'w Libs \<Rightarrow> 'w userValFn" where
  "bcryptPassword libs user w =
     (if Password user = [] then ((None, user), w)
      else
        (case GenerateFromPassword libs (Password user @ userPwPepper) DefaultCost w of
           (Inl err, w') \<Rightarrow> ((Some err, user), w')
         | (Inr hashedBytes, w') \<Rightarrow>
             ((None, user\<lparr>PasswordHash := hashedBytes, Password := []\<rparr>), w')))"

definition hmacRemember :: "'w userValidator \<Rightarrow> 'w userValFn" where
  "hmacRemember uv user w =
     (if Remember user = [] then ((None, user), w)
      else ((None, user\<lparr>RememberHash := hmac uv (Remember user)\<rparr>), w))"

definition setRememberIfUnset :: "'w Libs \<Rightarrow> 'w userValFn" where
  "setRememberIfUnset libs user w =
     (if Remember user \<noteq> [] then ((None, user), w)
      else
        (case RememberToken libs w of
           (Inl err, w') \<Rightarrow> ((Some err, user), w')
         | (Inr token, w') \<Rightarrow> ((None, user\<lparr>Remember := token\<rparr>), w')))"

definition idGreaterThan :: "64 word \<Rightarrow> 'w userValFn" where
  "idGreaterThan n user w =
     (if ID user \<le> n then ((Some ErrInvalidID, user), w) else ((None, user), w))"

definition userValidator_ByRemember :: "'w userValidator \<Rightarrow> string \<Rightarrow> 'w lookup" where
  "userValidator_ByRemember uv token w =
     (case runUserValFns (zeroUser\<lparr>Remember := token\<rparr>) [hmacRemember uv] w of
        ((Some err, user), w') \<Rightarrow> ((None, Some err), w')
      | ((None, user), w') \<Rightarrow> ByRemember (uvUserDB uv) (RememberHash user) w')"

definition userValidator_Create :: "'w Libs \<Rightarrow> 'w userValidator \<Rightarrow> 'w userValFn" where
  "userValidator_Create libs uv user w =
     (case runUserValFns user
             [bcryptPassword libs, setRememberIfUnset libs, hmacRemember uv] w of
        ((Some err, user'), w') \<Rightarrow> ((Some err, user'), w')
      | ((None, user'), w') \<Rightarrow> Create (uvUserDB uv) user' w')"

definition userValidator_Update :: "'w Libs \<Rightarrow> 'w userValidator \<Rightarrow> 'w userValFn" where
  "userValidator_Update libs uv user w =
     (case runUserValFns user [bcryptPassword libs, hmacRemember uv] w of
        ((Some err, user'), w') \<Rightarrow> ((Some err, user'), w')
      | ((None, user'), w') \<Rightarrow> Update (uvUserDB uv) user' w')"

definition userValidator_Delete ::
  "'w userValidator \<Rightarrow> 64 word \<Rightarrow> 'w \<Rightarrow> error option \<times> 'w" where
  "userValidator_Delete uv i w =
     (case runUserValFns (zeroUser\<lparr>ID := i\<rparr>) [idGreaterThan 0] w of
        ((Some err, user), w') \<Rightarrow> (Some err, w')
      | ((None, user), w') \<Rightarrow> Delete (uvUserDB uv) i w')"

text \<open>
  The method set of \<open>*userValidator\<close>: the four methods above, and \<open>ByID\<close> and \<open>ByEmail\<close>
  promoted from the embedded \<open>UserDB\<close>.
\<close>

definition userValidator :: "'w Libs \<Rightarrow> 'w userValidator \<Rightarrow> 'w UserDB" where
  "userValidator libs uv =
     \<lparr>ByID = ByID (uvUserDB uv), ByEmail = ByEmail (uvUserDB uv),
      ByRemember = userValidator_ByRemember uv, Create = userValidator_Create libs uv,
      Update = userValidator_Update libs uv, Delete = userValidator_Delete uv\<rparr>"

subsection \<open>userService: authentication\<close>

text \<open>
  \<open>Authenticate\<close> reads \<open>foundUser.PasswordHash\<close> once the lookup's error is nil: a lookup
  that answers \<open>(nil, nil)\<close> makes it panic on the nil pointer.
\<close>

datatype 'a outcome = Return 'a | Panic

definition Authenticate ::
  "'w Libs \<Rightarrow> 'w UserDB \<Rightarrow> string \<Rightarrow> string \<Rightarrow>
     'w \<Rightarrow> (User option \<times> error option) outcome \<times> 'w" where
  "Authenticate libs us email password w =
     (case ByEmail us email w of
        ((foundUser, Some err), w') \<Rightarrow> (Return (None, Some err), w')
      | ((None, None), w') \<Rightarrow> (Panic, w')
      | ((Some foundUser, None), w') \<Rightarrow>
          (case CompareHashAndPassword libs (PasswordHash foundUser)
                  (password @ userPwPepper) of
             None \<Rightarrow> (Return (Some foundUser, None), w')
           | Some err \<Rightarrow>
               if err = ErrMismatchedHashAndPassword
               then (Return (None, Some ErrInvalidPassword), w')
               else (Return (None, Some err), w')))"

text \<open>
  \<open>NewUserService\<close>, from the opened database handle on: the validator around the
  database layer, with the keyed hash under \<open>hmacSecretKey\<close>; the service embeds it.
\<close>

definition NewUserService :: "'w Libs \<Rightarrow> 'w gormDB \<Rightarrow> 'w UserDB" where
  "NewUserService libs db =
     userValidator libs \<lparr>uvUserDB = userGorm db, hmac = NewHMAC libs hmacSecretKey\<rparr>"

subsection \<open>An in-memory database and stand-ins for the libraries\<close>

text \<open>
  Used only to run the model at concrete inputs. The world holds the rows of the users
  table and what is left of the entropy source; the stand-ins for bcrypt and for the
  random token fail once the entropy is used up.
\<close>

record World =
  rows :: "User list"
  entropy :: nat

fun matches :: "query \<Rightarrow> User \<Rightarrow> bool" where
  "matches (WhereID i) r = (ID r = i)"
| "matches (WhereEmail e) r = (Email r = e)"
| "matches (WhereAge a) r = (Age r = a)"
| "matches (WhereRememberHash h) r = (RememberHash r = h)"

text \<open>What a row keeps of a record: the fields tagged \<open>gorm:"-"\<close> are not stored.\<close>

definition stored :: "User \<Rightarrow> User" where
  "stored user = user\<lparr>Password := [], Remember := []\<rparr>"

definition memFirst :: "query \<Rightarrow> User \<Rightarrow> World \<Rightarrow> (User \<times> error option) \<times> World" where
  "memFirst q dst w =
     (case filter (matches q) (rows w) of
        [] \<Rightarrow> ((dst, Some ErrRecordNotFound), w)
      | r # rs \<Rightarrow> ((r, None), w))"

definition memCreate :: "User \<Rightarrow> World \<Rightarrow> (User \<times> error option) \<times> World" where
  "memCreate user w =
     (let user' = user\<lparr>ID := of_nat (length (rows w)) + 1\<rparr>
      in ((user', None), w\<lparr>rows := rows w @ [stored user']\<rparr>))"

definition memSave :: "User \<Rightarrow> World \<Rightarrow> (User \<times> error option) \<times> World" where
  "memSave user w =
     ((user, None),
      w\<lparr>rows := map (\<lambda>r. if ID r = ID user then stored user else r) (rows w)\<rparr>)"

definition memDelete :: "User \<Rightarrow> World \<Rightarrow> error option \<times> World" where
  "memDelete user w = (None, w\<lparr>rows := filter (\<lambda>r. ID r \<noteq> ID user) (rows w)\<rparr>)"

definition memDB :: "World gormDB" where
  "memDB = \<lparr>First = memFirst, gormCreate = memCreate, Save = memSave,
     gormDelete = memDelete\<rparr>"

definition stubGenerate :: "string \<Rightarrow> nat \<Rightarrow> World \<Rightarrow> (error + string) \<times> World" where
  "stubGenerate password cost w =
     (if entropy w = 0 then (Inl (ErrOther ''EOF''), w)
      else (Inr (''$2a$'' @ password), w\<lparr>entropy := entropy w - 1\<rparr>))"

definition stubCompare :: "string \<Rightarrow> string \<Rightarrow> error option" where
  "stubCompare hashedPassword password =
     (if length hashedPassword < 4 then Some (ErrOther ''hashedSecret too short'')
      else if hashedPassword = ''$2a$'' @ password then None
      else Some ErrMismatchedHashAndPassword)"

text \<open>
  Modelled from the spec: the files of packages \<open>hash\<close> and \<open>rand\<close> are missing. The
  stand-ins keep what the spec says of them: the token generator fails only when the entropy
  source does, and the keyed hash is deterministic and answers a printable digest, which is
  never empty.
\<close>

definition stubToken :: "World \<Rightarrow> (error + string) \<times> World" where
  "stubToken w =
     (if entropy w = 0 then (Inl (ErrOther ''EOF''), w)
      else (Inr ''fresh-token'', w\<lparr>entropy := entropy w - 1\<rparr>))"

definition stubHMAC :: "string \<Rightarrow> string \<Rightarrow> string" where
  "stubHMAC key input = key @ '':'' @ input"

definition stubLibs :: "World Libs" where
  "stubLibs = \<lparr>GenerateFromPassword = stubGenerate, CompareHashAndPassword = stubCompare,
     RememberToken = stubToken, NewHMAC = stubHMAC\<rparr>"

definition memValidator :: "World userValidator" where
  "memValidator = \<lparr>uvUserDB = userGorm memDB, hmac = stubHMAC hmacSecretKey\<rparr>"

text \<open>The candidate that \<open>main\<close> creates (no password), and one with a password.\<close>

definition michael :: User where
  "michael = zeroUser\<lparr>Name := ''Michael Scott'', Email := ''michael@dundermifflin.com''\<rparr>"

definition pam :: User where
  "pam = zeroUser\<lparr>Name := ''Pam'', Email := ''pam@dundermifflin.com'', Password := ''pw''\<rparr>"

text \<open>A row as \<open>pam\<close> is stored after \<open>Create\<close>, and a world that holds it.\<close>

definition pamRow :: User where
  "pamRow = zeroUser\<lparr>ID := 1, Name := ''Pam'', Email := ''pam@dundermifflin.com'',
     PasswordHash := ''$2a$pwrandom-string-as-pepper'',
     RememberHash := ''secret-hmac-key:fresh-token''\<rparr>"

definition emptyWorld :: World where
  "emptyWorld = \<lparr>rows = [], entropy = 8\<rparr>"

definition pamWorld :: World where
  "pamWorld = \<lparr>rows = [pamRow], entropy = 8\<rparr>"

definition dryWorld :: World where
  "dryWorld = \<lparr>rows = [], entropy = 0\<rparr>"

section \<open>Properties\<close>

lemmas chain_defs = NewUserService_def userValidator_def userGorm_def userGorm_ByEmail_def
  first_def

lemmas step_defs = bcryptPassword_def setRememberIfUnset_def hmacRemember_def

lemmas mem_defs = memDB_def memFirst_def memCreate_def memSave_def memDelete_def
  stubLibs_def stubGenerate_def stubCompare_def stubToken_def stubHMAC_def memValidator_def
  michael_def pam_def pamRow_def emptyWorld_def pamWorld_def dryWorld_def zeroUser_def
  stored_def userPwPepper_def hmacSecretKey_def DefaultCost_def

text \<open>
  The loop of \<open>runUserValFns\<close> fails fast on any list: the functions after the first one
  that errs are not run.
\<close>

lemma runUserValFns_append:
  "runUserValFns user (fs @ gs) w =
     (case runUserValFns user fs w of
        ((Some err, user'), w') \<Rightarrow> ((Some err, user'), w')
      | ((None, user'), w') \<Rightarrow> runUserValFns user' gs w')"
  by (induction fs arbitrary: user w) (auto split: prod.splits option.splits)

subsection \<open>Authenticate\<close>

text \<open>
  C1. \<open>Authenticate\<close> answers the found record and a nil error when the lookup by email
  succeeds and bcrypt accepts \<open>password + pepper\<close> against the stored hash;
  \<open>ErrInvalidPassword\<close> when bcrypt reports a mismatch; any other error of bcrypt or of the
  lookup as it is; and, on the service that \<open>NewUserService\<close> builds, \<open>ErrNotFound\<close> when
  the database has no record with that email.
\<close>

theorem Authenticate_results:
  "(ByEmail us email w = ((Some foundUser, None), w') \<and>
      CompareHashAndPassword libs (PasswordHash foundUser) (password @ userPwPepper) = None \<longrightarrow>
    Authenticate libs us email password w = (Return (Some foundUser, None), w')) \<and>
   (ByEmail us email w = ((Some foundUser, None), w') \<and>
      CompareHashAndPassword libs (PasswordHash foundUser) (password @ userPwPepper) =
        Some ErrMismatchedHashAndPassword \<longrightarrow>
    Authenticate libs us email password w = (Return (None, Some ErrInvalidPassword), w')) \<and>
   (ByEmail us email w = ((Some foundUser, None), w') \<and>
      CompareHashAndPassword libs (PasswordHash foundUser) (password @ userPwPepper) =
        Some err \<and> err \<noteq> ErrMismatchedHashAndPassword \<longrightarrow>
    Authenticate libs us email password w = (Return (None, Some err), w')) \<and>
   (ByEmail us email w = ((found, Some err), w') \<longrightarrow>
    Authenticate libs us email password w = (Return (None, Some err), w')) \<and>
   (First db (WhereEmail email) zeroUser w = ((dst, Some ErrRecordNotFound), w') \<longrightarrow>
    Authenticate libs (NewUserService libs db) email password w =
      (Return (None, Some ErrNotFound), w'))"
  by (auto simp: Authenticate_def chain_defs split: option.splits)

theorem Authenticate_results_witness:
  "Authenticate stubLibs (NewUserService stubLibs memDB) ''pam@dundermifflin.com'' ''pw'' pamWorld =
     (Return (Some pamRow, None), pamWorld) \<and>
   Authenticate stubLibs (NewUserService stubLibs memDB) ''pam@dundermifflin.com'' ''pwx'' pamWorld =
     (Return (None, Some ErrInvalidPassword), pamWorld) \<and>
   Authenticate stubLibs (NewUserService stubLibs memDB) ''michael@dundermifflin.com'' ''pw''
       \<lparr>rows = [stored michael], entropy = 0\<rparr> =
     (Return (None, Some (ErrOther ''hashedSecret too short'')),
      \<lparr>rows = [stored michael], entropy = 0\<rparr>) \<and>
   Authenticate stubLibs (NewUserService stubLibs memDB) ''nobody@example.com'' ''pw'' pamWorld =
     (Return (None, Some ErrNotFound), pamWorld)"
proof -
  let ?us = "NewUserService stubLibs memDB"
  let ?w = "\<lparr>rows = [stored michael], entropy = 0\<rparr>"
  have pamFound: "ByEmail ?us ''pam@dundermifflin.com'' pamWorld = ((Some pamRow, None), pamWorld)"
    by (simp add: chain_defs mem_defs)
  have michaelFound:
    "ByEmail ?us ''michael@dundermifflin.com'' ?w = ((Some (stored michael), None), ?w)"
    by (simp add: chain_defs mem_defs)
  have nobody: "First memDB (WhereEmail ''nobody@example.com'') zeroUser pamWorld =
      ((zeroUser, Some ErrRecordNotFound), pamWorld)"
    by (simp add: mem_defs)
  have ok: "CompareHashAndPassword stubLibs (PasswordHash pamRow) (''pw'' @ userPwPepper) = None"
    by (simp add: mem_defs)
  have mismatch: "CompareHashAndPassword stubLibs (PasswordHash pamRow) (''pwx'' @ userPwPepper) =
      Some ErrMismatchedHashAndPassword"
    by (simp add: mem_defs)
  have short: "CompareHashAndPassword stubLibs (PasswordHash (stored michael))
      (''pw'' @ userPwPepper) = Some (ErrOther ''hashedSecret too short'')"
    by (simp add: mem_defs)
  show ?thesis
    using Authenticate_results [where us = ?us and libs = stubLibs and w = pamWorld
        and w' = pamWorld and foundUser = pamRow and password = "''pw''"
        and email = "''pam@dundermifflin.com''"]
      Authenticate_results [where us = ?us and libs = stubLibs and w = pamWorld
        and w' = pamWorld and foundUser = pamRow and password = "''pwx''"
        and email = "''pam@dundermifflin.com''"]
      Authenticate_results [where us = ?us and libs = stubLibs and w = ?w
        and w' = ?w and foundUser = "stored michael" and password = "''pw''"
        and email = "''michael@dundermifflin.com''"
        and err = "ErrOther ''hashedSecret too short''"]
      Authenticate_results [where libs = stubLibs and db = memDB and w = pamWorld
        and w' = pamWorld and dst = zeroUser and password = "''pw''"
        and email = "''nobody@example.com''"]
      pamFound michaelFound nobody ok mismatch short
    by simp
qed

text \<open>
  C10. \<open>Authenticate\<close> answers a record exactly when it answers no error; the world it
  leaves is the one the lookup by email left, so that lookup is its only access to the
  store. Over an arbitrary \<open>UserDB\<close> the one other behaviour is the panic on a lookup that
  answers \<open>(nil, nil)\<close>; the service that \<open>NewUserService\<close> builds never does that.
\<close>

theorem Authenticate_record_iff_no_error:
  "((fst (Authenticate libs us email password w) = Panic \<and>
       fst (ByEmail us email w) = (None, None)) \<or>
    (\<exists>user err. fst (Authenticate libs us email password w) = Return (user, err) \<and>
       (user \<noteq> None) = (err = None))) \<and>
   snd (Authenticate libs us email password w) = snd (ByEmail us email w) \<and>
   (\<exists>user err. fst (Authenticate libs (NewUserService libs db) email password w) =
       Return (user, err) \<and> (user \<noteq> None) = (err = None)) \<and>
   snd (Authenticate libs (NewUserService libs db) email password w) =
     snd (First db (WhereEmail email) zeroUser w)"
  by (auto simp: Authenticate_def chain_defs split: prod.splits option.splits)

theorem Authenticate_record_iff_no_error_witness:
  "fst (Authenticate stubLibs (NewUserService stubLibs memDB) ''pam@dundermifflin.com'' ''pw''
      pamWorld) = Return (Some pamRow, None) \<and>
   snd (Authenticate stubLibs (NewUserService stubLibs memDB) ''pam@dundermifflin.com'' ''pw''
      pamWorld) = pamWorld"
  using Authenticate_record_iff_no_error [where libs = stubLibs and db = memDB
      and us = "NewUserService stubLibs memDB" and w = pamWorld and password = "''pw''"
      and email = "''pam@dundermifflin.com''"]
  by (simp add: Authenticate_def chain_defs mem_defs)

subsection \<open>Create and Update\<close>

text \<open>
  C2. \<open>Create\<close> of the validator runs \<open>bcryptPassword\<close>, then \<open>setRememberIfUnset\<close>, then
  \<open>hmacRemember\<close>, each on the record the step before left; the first error is returned
  and nothing after it runs; the store's \<open>Create\<close> is called only after three nil results.
  The second step calls the token generator only if the record has no token, and the third
  hashes the token that is present then.
\<close>

theorem Create_steps_in_order:
  "userValidator_Create libs uv user w =
     (case bcryptPassword libs user w of
        ((Some err, user1), w1) \<Rightarrow> ((Some err, user1), w1)
      | ((None, user1), w1) \<Rightarrow>
          (case setRememberIfUnset libs user1 w1 of
             ((Some err, user2), w2) \<Rightarrow> ((Some err, user2), w2)
           | ((None, user2), w2) \<Rightarrow>
               (case hmacRemember uv user2 w2 of
                  ((Some err, user3), w3) \<Rightarrow> ((Some err, user3), w3)
                | ((None, user3), w3) \<Rightarrow> Create (uvUserDB uv) user3 w3))) \<and>
   (Remember user \<noteq> [] \<longrightarrow> setRememberIfUnset libs user w = ((None, user), w)) \<and>
   (Remember user = [] \<and> RememberToken libs w = (Inr token, w') \<longrightarrow>
      setRememberIfUnset libs user w = ((None, user\<lparr>Remember := token\<rparr>), w')) \<and>
   (Remember user = [] \<and> RememberToken libs w = (Inl err, w') \<longrightarrow>
      setRememberIfUnset libs user w = ((Some err, user), w')) \<and>
   (Remember user \<noteq> [] \<longrightarrow>
      hmacRemember uv user w = ((None, user\<lparr>RememberHash := hmac uv (Remember user)\<rparr>), w))"
  by (simp add: userValidator_Create_def setRememberIfUnset_def hmacRemember_def
      split: prod.splits option.splits)

theorem Create_steps_in_order_witness:
  "userValidator_Create stubLibs memValidator pam emptyWorld =
     ((None, pamRow\<lparr>Remember := ''fresh-token''\<rparr>), \<lparr>rows = [pamRow], entropy = 6\<rparr>) \<and>
   userValidator_Create stubLibs memValidator pam dryWorld =
     ((Some (ErrOther ''EOF''), pam), dryWorld) \<and>
   userValidator_Create stubLibs memValidator michael dryWorld =
     ((Some (ErrOther ''EOF''), michael), dryWorld) \<and>
   setRememberIfUnset stubLibs (pam\<lparr>Remember := ''mine''\<rparr>) emptyWorld =
     ((None, pam\<lparr>Remember := ''mine''\<rparr>), emptyWorld) \<and>
   hmacRemember memValidator (pam\<lparr>Remember := ''mine''\<rparr>) emptyWorld =
     ((None, pam\<lparr>Remember := ''mine'', RememberHash := ''secret-hmac-key:mine''\<rparr>), emptyWorld)"
proof -
  have mint: "RememberToken stubLibs emptyWorld = (Inr ''fresh-token'', \<lparr>rows = [], entropy = 7\<rparr>)"
    by (simp add: mem_defs)
  have dry: "RememberToken stubLibs dryWorld = (Inl (ErrOther ''EOF''), dryWorld)"
    by (simp add: mem_defs)
  have unset: "Remember michael = []" and given: "Remember (pam\<lparr>Remember := ''mine''\<rparr>) \<noteq> []"
    by (simp_all add: mem_defs)
  note at_pam = Create_steps_in_order [where libs = stubLibs and uv = memValidator
      and user = pam and w = emptyWorld]
  note at_pam_dry = Create_steps_in_order [where libs = stubLibs and uv = memValidator
      and user = pam and w = dryWorld]
  note at_michael_dry = Create_steps_in_order [where libs = stubLibs and uv = memValidator
      and user = michael and w = dryWorld and w' = dryWorld and err = "ErrOther ''EOF''"]
  note at_mine = Create_steps_in_order [where libs = stubLibs and uv = memValidator
      and user = "pam\<lparr>Remember := ''mine''\<rparr>" and w = emptyWorld]
  have c1: "userValidator_Create stubLibs memValidator pam emptyWorld =
      ((None, pamRow\<lparr>Remember := ''fresh-token''\<rparr>), \<lparr>rows = [pamRow], entropy = 6\<rparr>)"
    using at_pam
    by (simp add: bcryptPassword_def setRememberIfUnset_def hmacRemember_def userGorm_def
        userGorm_Create_def mem_defs)
  have c2: "userValidator_Create stubLibs memValidator pam dryWorld =
      ((Some (ErrOther ''EOF''), pam), dryWorld)"
    using at_pam_dry by (simp add: bcryptPassword_def mem_defs)
  have c3: "userValidator_Create stubLibs memValidator michael dryWorld =
      ((Some (ErrOther ''EOF''), michael), dryWorld)"
    using at_michael_dry unset dry by (simp add: bcryptPassword_def mem_defs)
  show ?thesis
    using c1 c2 c3 at_mine given
    by (simp add: memValidator_def stubHMAC_def hmacSecretKey_def)
qed

text \<open>
  C3. With a non-empty \<open>Password\<close>, and bcrypt answering a hash of \<open>Password + pepper\<close>, the
  password step stores that hash in \<open>PasswordHash\<close> and empties \<open>Password\<close>, and the steps
  after it run on that record; with an empty \<open>Password\<close> the step changes nothing. So the
  record that \<open>Create\<close> and \<open>Update\<close> hand to the store has an empty \<open>Password\<close>, and its
  \<open>PasswordHash\<close> is the fresh hash, or the prior value when no password was given.
\<close>

theorem bcryptPassword_hashes_and_clears:
  "(Password user \<noteq> [] \<and>
      GenerateFromPassword libs (Password user @ userPwPepper) DefaultCost w =
        (Inr hashedBytes, w') \<longrightarrow>
    bcryptPassword libs user w =
      ((None, user\<lparr>PasswordHash := hashedBytes, Password := []\<rparr>), w') \<and>
    runUserValFns user (bcryptPassword libs # fns) w =
      runUserValFns (user\<lparr>PasswordHash := hashedBytes, Password := []\<rparr>) fns w') \<and>
   (Password user = [] \<longrightarrow> bcryptPassword libs user w = ((None, user), w)) \<and>
   (runUserValFns user [bcryptPassword libs, setRememberIfUnset libs, hmacRemember uv] w =
      ((None, user'), w'') \<longrightarrow>
    userValidator_Create libs uv user w = Create (uvUserDB uv) user' w'' \<and>
    Password user' = [] \<and>
    (if Password user = [] then PasswordHash user' = PasswordHash user
     else \<exists>w1. GenerateFromPassword libs (Password user @ userPwPepper) DefaultCost w =
            (Inr (PasswordHash user'), w1))) \<and>
   (runUserValFns user [bcryptPassword libs, hmacRemember uv] w = ((None, user'), w'') \<longrightarrow>
    userValidator_Update libs uv user w = Update (uvUserDB uv) user' w'' \<and>
    Password user' = [] \<and>
    (if Password user = [] then PasswordHash user' = PasswordHash user
     else \<exists>w1. GenerateFromPassword libs (Password user @ userPwPepper) DefaultCost w =
            (Inr (PasswordHash user'), w1)))"
proof (intro conjI impI)
  assume "Password user \<noteq> [] \<and>
      GenerateFromPassword libs (Password user @ userPwPepper) DefaultCost w =
        (Inr hashedBytes, w')"
  then show step: "bcryptPassword libs user w =
      ((None, user\<lparr>PasswordHash := hashedBytes, Password := []\<rparr>), w')"
    by (simp add: bcryptPassword_def)
  then show "runUserValFns user (bcryptPassword libs # fns) w =
      runUserValFns (user\<lparr>PasswordHash := hashedBytes, Password := []\<rparr>) fns w'"
    by simp
next
  assume "Password user = []"
  then show "bcryptPassword libs user w = ((None, user), w)"
    by (simp add: bcryptPassword_def)
next
  assume run: "runUserValFns user
      [bcryptPassword libs, setRememberIfUnset libs, hmacRemember uv] w = ((None, user'), w'')"
  then show "userValidator_Create libs uv user w = Create (uvUserDB uv) user' w''"
    by (simp add: userValidator_Create_def)
  from run show "Password user' = []"
    by (auto simp: step_defs split: if_splits prod.splits sum.splits)
  from run show "if Password user = [] then PasswordHash user' = PasswordHash user
     else \<exists>w1. GenerateFromPassword libs (Password user @ userPwPepper) DefaultCost w =
            (Inr (PasswordHash user'), w1)"
    by (auto simp: step_defs split: if_splits prod.splits sum.splits)
next
  assume run: "runUserValFns user [bcryptPassword libs, hmacRemember uv] w = ((None, user'), w'')"
  then show "userValidator_Update libs uv user w = Update (uvUserDB uv) user' w''"
    by (simp add: userValidator_Update_def)
  from run show "Password user' = []"
    by (auto simp: step_defs split: if_splits prod.splits sum.splits)
  from run show "if Password user = [] then PasswordHash user' = PasswordHash user
     else \<exists>w1. GenerateFromPassword libs (Password user @ userPwPepper) DefaultCost w =
            (Inr (PasswordHash user'), w1)"
    by (auto simp: step_defs split: if_splits prod.splits sum.splits)
qed

theorem bcryptPassword_hashes_and_clears_witness:
  "bcryptPassword stubLibs pam emptyWorld =
     ((None, pam\<lparr>PasswordHash := ''$2a$pwrandom-string-as-pepper'', Password := []\<rparr>),
      \<lparr>rows = [], entropy = 7\<rparr>) \<and>
   bcryptPassword stubLibs michael emptyWorld = ((None, michael), emptyWorld) \<and>
   userValidator_Create stubLibs memValidator pam emptyWorld =
     Create (uvUserDB memValidator) (pamRow\<lparr>ID := 0, Remember := ''fresh-token''\<rparr>)
       \<lparr>rows = [], entropy = 6\<rparr> \<and>
   userValidator_Update stubLibs memValidator (pamRow\<lparr>Password := ''new''\<rparr>) pamWorld =
     Update (uvUserDB memValidator) (pamRow\<lparr>PasswordHash := ''$2a$newrandom-string-as-pepper''\<rparr>)
       \<lparr>rows = [pamRow], entropy = 7\<rparr>"
proof -
  have gen: "Password pam \<noteq> [] \<and>
      GenerateFromPassword stubLibs (Password pam @ userPwPepper) DefaultCost emptyWorld =
        (Inr ''$2a$pwrandom-string-as-pepper'', \<lparr>rows = [], entropy = 7\<rparr>)"
    by (simp add: mem_defs)
  have none: "Password michael = []"
    by (simp add: mem_defs)
  have create: "runUserValFns pam
      [bcryptPassword stubLibs, setRememberIfUnset stubLibs, hmacRemember memValidator]
      emptyWorld =
      ((None, pamRow\<lparr>ID := 0, Remember := ''fresh-token''\<rparr>), \<lparr>rows = [], entropy = 6\<rparr>)"
    by (simp add: step_defs mem_defs)
  have update: "runUserValFns (pamRow\<lparr>Password := ''new''\<rparr>)
      [bcryptPassword stubLibs, hmacRemember memValidator] pamWorld =
      ((None, pamRow\<lparr>PasswordHash := ''$2a$newrandom-string-as-pepper''\<rparr>),
       \<lparr>rows = [pamRow], entropy = 7\<rparr>)"
    by (simp add: step_defs mem_defs)
  note at_pam = bcryptPassword_hashes_and_clears [where libs = stubLibs and user = pam
      and w = emptyWorld and w' = "\<lparr>rows = [], entropy = 7\<rparr>"
      and hashedBytes = "''$2a$pwrandom-string-as-pepper''" and uv = memValidator
      and user' = "pamRow\<lparr>ID := 0, Remember := ''fresh-token''\<rparr>"
      and w'' = "\<lparr>rows = [], entropy = 6\<rparr>" and fns = "[]"]
  note at_michael = bcryptPassword_hashes_and_clears [where libs = stubLibs
      and user = michael and w = emptyWorld]
  note at_new = bcryptPassword_hashes_and_clears [where libs = stubLibs
      and user = "pamRow\<lparr>Password := ''new''\<rparr>" and uv = memValidator and w = pamWorld
      and user' = "pamRow\<lparr>PasswordHash := ''$2a$newrandom-string-as-pepper''\<rparr>"
      and w'' = "\<lparr>rows = [pamRow], entropy = 7\<rparr>"]
  have c1: "bcryptPassword stubLibs pam emptyWorld =
     ((None, pam\<lparr>PasswordHash := ''$2a$pwrandom-string-as-pepper'', Password := []\<rparr>),
      \<lparr>rows = [], entropy = 7\<rparr>)"
    using at_pam gen by blast
  have c2: "bcryptPassword stubLibs michael emptyWorld = ((None, michael), emptyWorld)"
    using at_michael none by blast
  have c3: "userValidator_Create stubLibs memValidator pam emptyWorld =
     Create (uvUserDB memValidator) (pamRow\<lparr>ID := 0, Remember := ''fresh-token''\<rparr>)
       \<lparr>rows = [], entropy = 6\<rparr>"
    using at_pam create by blast
  have c4: "userValidator_Update stubLibs memValidator (pamRow\<lparr>Password := ''new''\<rparr>) pamWorld =
     Update (uvUserDB memValidator) (pamRow\<lparr>PasswordHash := ''$2a$newrandom-string-as-pepper''\<rparr>)
       \<lparr>rows = [pamRow], entropy = 7\<rparr>"
    using at_new update by blast
  show ?thesis
    using c1 c2 c3 c4 by blast
qed

text \<open>
  C4, as the claim states it, fails: the password step is skipped for a candidate without a
  password, so the candidate that \<open>main\<close> creates is stored with an empty \<open>PasswordHash\<close>.
\<close>

theorem Create_without_password_counterexample:
  "userValidator_Create stubLibs memValidator michael emptyWorld =
     ((None, michael\<lparr>ID := 1, Remember := ''fresh-token'',
         RememberHash := ''secret-hmac-key:fresh-token''\<rparr>),
      \<lparr>rows = [michael\<lparr>ID := 1, RememberHash := ''secret-hmac-key:fresh-token''\<rparr>],
       entropy = 7\<rparr>) \<and>
   PasswordHash (michael\<lparr>ID := 1, RememberHash := ''secret-hmac-key:fresh-token''\<rparr>) = []"
  by (simp add: userValidator_Create_def step_defs userGorm_def userGorm_Create_def mem_defs)

text \<open>
  C4, amended. When the three steps of \<open>Create\<close> succeed, and bcrypt, the token generator
  and the keyed hash never answer an empty string, the record handed to the store has a
  non-empty \<open>RememberHash\<close>; its \<open>PasswordHash\<close> is non-empty exactly when the candidate
  came with a password or with a non-empty \<open>PasswordHash\<close>.
\<close>

theorem Create_hashes_present:
  assumes "runUserValFns user
      [bcryptPassword libs, setRememberIfUnset libs, hmacRemember uv] w = ((None, user'), w')"
    and "\<forall>p c v h v'. GenerateFromPassword libs p c v = (Inr h, v') \<longrightarrow> h \<noteq> []"
    and "\<forall>v t v'. RememberToken libs v = (Inr t, v') \<longrightarrow> t \<noteq> []"
    and "\<forall>t. hmac uv t \<noteq> []"
  shows "userValidator_Create libs uv user w = Create (uvUserDB uv) user' w' \<and>
    RememberHash user' \<noteq> [] \<and>
    (PasswordHash user' \<noteq> []) = (Password user \<noteq> [] \<or> PasswordHash user \<noteq> [])"
proof (intro conjI)
  have gen: "h \<noteq> []" if "GenerateFromPassword libs p c v = (Inr h, v')" for p c v h v'
    using assms(2) that by blast
  have tok: "t \<noteq> []" if "RememberToken libs v = (Inr t, v')" for v t v'
    using assms(3) that by blast
  have mac: "hmac uv t \<noteq> []" for t
    using assms(4) by blast
  show "userValidator_Create libs uv user w = Create (uvUserDB uv) user' w'"
    using assms(1) by (simp add: userValidator_Create_def)
  show "RememberHash user' \<noteq> []"
    using assms(1)
    by (auto simp: step_defs mac split: if_splits prod.splits sum.splits dest: tok)
  show "(PasswordHash user' \<noteq> []) = (Password user \<noteq> [] \<or> PasswordHash user \<noteq> [])"
    using assms(1)
    by (auto simp: step_defs split: if_splits prod.splits sum.splits dest: gen)
qed

theorem Create_hashes_present_witness:
  "userValidator_Create stubLibs memValidator pam emptyWorld =
     Create (uvUserDB memValidator) (pamRow\<lparr>ID := 0, Remember := ''fresh-token''\<rparr>)
       \<lparr>rows = [], entropy = 6\<rparr> \<and>
   RememberHash (pamRow\<lparr>ID := 0, Remember := ''fresh-token''\<rparr>) \<noteq> [] \<and>
   PasswordHash (pamRow\<lparr>ID := 0, Remember := ''fresh-token''\<rparr>) \<noteq> []"
proof -
  have create: "runUserValFns pam
      [bcryptPassword stubLibs, setRememberIfUnset stubLibs, hmacRemember memValidator]
      emptyWorld =
      ((None, pamRow\<lparr>ID := 0, Remember := ''fresh-token''\<rparr>), \<lparr>rows = [], entropy = 6\<rparr>)"
    by (simp add: step_defs mem_defs)
  have gen: "\<forall>p c v h v'. GenerateFromPassword stubLibs p c v = (Inr h, v') \<longrightarrow> h \<noteq> []"
    by (auto simp: stubLibs_def stubGenerate_def split: if_splits)
  have tok: "\<forall>v t v'. RememberToken stubLibs v = (Inr t, v') \<longrightarrow> t \<noteq> []"
    by (auto simp: stubLibs_def stubToken_def split: if_splits)
  have mac: "\<forall>t. hmac memValidator t \<noteq> []"
    by (simp add: memValidator_def stubHMAC_def hmacSecretKey_def)
  show ?thesis
    using Create_hashes_present [OF create gen tok mac] by (simp add: pam_def)
qed

text \<open>
  C5, as the claim states it, fails: \<open>hmacRemember\<close> writes \<open>RememberHash\<close> and leaves
  \<open>Remember\<close> as it is, so after the hashing step (and after \<open>Create\<close>) the record still
  holds the plaintext token.
\<close>

theorem Create_keeps_remember_token_counterexample:
  "runUserValFns michael
     [bcryptPassword stubLibs, setRememberIfUnset stubLibs, hmacRemember memValidator]
     emptyWorld =
     ((None, michael\<lparr>Remember := ''fresh-token'',
         RememberHash := ''secret-hmac-key:fresh-token''\<rparr>),
      \<lparr>rows = [], entropy = 7\<rparr>) \<and>
   Remember (snd (fst (userValidator_Create stubLibs memValidator michael emptyWorld))) =
     ''fresh-token''"
  by (simp add: userValidator_Create_def step_defs userGorm_def userGorm_Create_def mem_defs)

text \<open>
  C5, amended. The hashing step never changes \<open>Remember\<close>; it sets \<open>RememberHash\<close> to the
  keyed hash of a token that is present. After the three steps of \<open>Create\<close> the record handed
  to the store still holds the plaintext token (the caller's, or the one the generator
  answered) next to its digest.
\<close>

theorem hmacRemember_keeps_token:
  "Remember (snd (fst (hmacRemember uv user w))) = Remember user \<and>
   RememberHash (snd (fst (hmacRemember uv user w))) =
     (if Remember user = [] then RememberHash user else hmac uv (Remember user)) \<and>
   (runUserValFns user [bcryptPassword libs, setRememberIfUnset libs, hmacRemember uv] w =
      ((None, user'), w') \<longrightarrow>
    userValidator_Create libs uv user w = Create (uvUserDB uv) user' w' \<and>
    (if Remember user = [] then \<exists>v v'. RememberToken libs v = (Inr (Remember user'), v')
     else Remember user' = Remember user) \<and>
    RememberHash user' =
      (if Remember user' = [] then RememberHash user else hmac uv (Remember user')))"
proof (intro conjI impI)
  show "Remember (snd (fst (hmacRemember uv user w))) = Remember user"
    by (simp add: hmacRemember_def)
  show "RememberHash (snd (fst (hmacRemember uv user w))) =
     (if Remember user = [] then RememberHash user else hmac uv (Remember user))"
    by (simp add: hmacRemember_def)
next
  assume run: "runUserValFns user
      [bcryptPassword libs, setRememberIfUnset libs, hmacRemember uv] w = ((None, user'), w')"
  then show "userValidator_Create libs uv user w = Create (uvUserDB uv) user' w'"
    by (simp add: userValidator_Create_def)
  from run show "if Remember user = []
     then \<exists>v v'. RememberToken libs v = (Inr (Remember user'), v')
     else Remember user' = Remember user"
    by (auto simp: step_defs split: if_splits prod.splits sum.splits) blast+
  from run show "RememberHash user' =
      (if Remember user' = [] then RememberHash user else hmac uv (Remember user'))"
    by (auto simp: step_defs split: if_splits prod.splits sum.splits)
qed

theorem hmacRemember_keeps_token_witness:
  "userValidator_Create stubLibs memValidator michael emptyWorld =
     Create (uvUserDB memValidator)
       (michael\<lparr>Remember := ''fresh-token'', RememberHash := ''secret-hmac-key:fresh-token''\<rparr>)
       \<lparr>rows = [], entropy = 7\<rparr> \<and>
   RememberToken stubLibs emptyWorld = (Inr ''fresh-token'', \<lparr>rows = [], entropy = 7\<rparr>)"
proof -
  have run: "runUserValFns michael
      [bcryptPassword stubLibs, setRememberIfUnset stubLibs, hmacRemember memValidator]
      emptyWorld =
      ((None, michael\<lparr>Remember := ''fresh-token'',
          RememberHash := ''secret-hmac-key:fresh-token''\<rparr>),
       \<lparr>rows = [], entropy = 7\<rparr>)"
    by (simp add: step_defs mem_defs)
  have mint: "RememberToken stubLibs emptyWorld = (Inr ''fresh-token'', \<lparr>rows = [], entropy = 7\<rparr>)"
    by (simp add: mem_defs)
  note at_michael = hmacRemember_keeps_token [where libs = stubLibs and uv = memValidator
      and user = michael and w = emptyWorld and w' = "\<lparr>rows = [], entropy = 7\<rparr>"
      and user' = "michael\<lparr>Remember := ''fresh-token'',
        RememberHash := ''secret-hmac-key:fresh-token''\<rparr>"]
  have "userValidator_Create stubLibs memValidator michael emptyWorld =
     Create (uvUserDB memValidator)
       (michael\<lparr>Remember := ''fresh-token'', RememberHash := ''secret-hmac-key:fresh-token''\<rparr>)
       \<lparr>rows = [], entropy = 7\<rparr>"
    using at_michael run by blast
  then show ?thesis using mint by blast
qed

text \<open>
  C6. For a record with an empty \<open>Remember\<close>, \<open>Update\<close> of the validator either returns the
  error of the password step, or calls the store's \<open>Update\<close> with a record whose
  \<open>RememberHash\<close> is the one it was given and whose \<open>Remember\<close> is still empty. The token
  generator plays no part: replacing it by any other changes nothing.
\<close>

theorem Update_keeps_RememberHash:
  "Remember user = [] \<longrightarrow>
     (case bcryptPassword libs user w of
        ((Some err, user1), w1) \<Rightarrow>
          userValidator_Update libs uv user w = ((Some err, user1), w1) \<and> user1 = user
      | ((None, user1), w1) \<Rightarrow>
          userValidator_Update libs uv user w = Update (uvUserDB uv) user1 w1 \<and>
          RememberHash user1 = RememberHash user \<and> Remember user1 = []) \<and>
     userValidator_Update (libs\<lparr>RememberToken := mint\<rparr>) uv user w =
       userValidator_Update libs uv user w"
  by (simp add: userValidator_Update_def step_defs split: prod.splits sum.splits)

theorem Update_keeps_RememberHash_witness:
  "Remember (pamRow\<lparr>Name := ''Updated Name''\<rparr>) = [] \<and>
   userValidator_Update stubLibs memValidator (pamRow\<lparr>Name := ''Updated Name''\<rparr>) pamWorld =
     Update (uvUserDB memValidator) (pamRow\<lparr>Name := ''Updated Name''\<rparr>) pamWorld \<and>
   userValidator_Update stubLibs memValidator (pamRow\<lparr>Name := ''Updated Name''\<rparr>) pamWorld =
     ((None, pamRow\<lparr>Name := ''Updated Name''\<rparr>),
      \<lparr>rows = [pamRow\<lparr>Name := ''Updated Name''\<rparr>], entropy = 8\<rparr>)"
proof -
  have unset: "Remember (pamRow\<lparr>Name := ''Updated Name''\<rparr>) = []"
    by (simp add: mem_defs)
  have step: "bcryptPassword stubLibs (pamRow\<lparr>Name := ''Updated Name''\<rparr>) pamWorld =
      ((None, pamRow\<lparr>Name := ''Updated Name''\<rparr>), pamWorld)"
    by (simp add: bcryptPassword_def mem_defs)
  have store: "Update (uvUserDB memValidator) (pamRow\<lparr>Name := ''Updated Name''\<rparr>) pamWorld =
      ((None, pamRow\<lparr>Name := ''Updated Name''\<rparr>),
       \<lparr>rows = [pamRow\<lparr>Name := ''Updated Name''\<rparr>], entropy = 8\<rparr>)"
    by (simp add: userGorm_def userGorm_Update_def mem_defs)
  have "userValidator_Update stubLibs memValidator (pamRow\<lparr>Name := ''Updated Name''\<rparr>) pamWorld =
     Update (uvUserDB memValidator) (pamRow\<lparr>Name := ''Updated Name''\<rparr>) pamWorld"
    using Update_keeps_RememberHash [where libs = stubLibs and uv = memValidator
        and user = "pamRow\<lparr>Name := ''Updated Name''\<rparr>" and w = pamWorld] unset step
    by simp
  then show ?thesis using unset store by simp
qed

subsection \<open>Delete\<close>

text \<open>
  C7, as the claim states it, fails for a negative-equivalent id: the id is unsigned, so the
  conversion of \<open>-1\<close> is the largest id, it passes the guard, and the store's \<open>Delete\<close> runs.
\<close>

theorem Delete_negative_equivalent_counterexample:
  "userValidator_Delete memValidator (word_of_int (- 1)) pamWorld = (None, pamWorld) \<and>
   userValidator_Delete memValidator (word_of_int (- 1)) pamWorld =
     Delete (uvUserDB memValidator) (word_of_int (- 1)) pamWorld"
  by (simp add: userValidator_Delete_def idGreaterThan_def userGorm_def userGorm_Delete_def
      mem_defs)

text \<open>
  C7, amended. \<open>Delete\<close> of the validator returns \<open>ErrInvalidID\<close> and leaves the world as
  it was when \<open>id \<le> 0\<close>, which for the unsigned id is \<open>id = 0\<close> and nothing else; for every
  \<open>id > 0\<close> it is the store's \<open>Delete\<close> on the same id.
\<close>

theorem Delete_guard:
  "(i \<le> 0 \<longrightarrow> userValidator_Delete uv i w = (Some ErrInvalidID, w)) \<and>
   (0 < i \<longrightarrow> userValidator_Delete uv i w = Delete (uvUserDB uv) i w) \<and>
   (i \<le> 0) = (i = 0)"
  by (auto simp: userValidator_Delete_def idGreaterThan_def zeroUser_def word_gt_0)

theorem Delete_guard_witness:
  "userValidator_Delete memValidator 0 pamWorld = (Some ErrInvalidID, pamWorld) \<and>
   userValidator_Delete memValidator 1 pamWorld = (None, \<lparr>rows = [], entropy = 8\<rparr>)"
proof -
  have zero: "(0 :: 64 word) \<le> 0" and one: "(0 :: 64 word) < 1"
    by simp_all
  have store: "Delete (uvUserDB memValidator) 1 pamWorld = (None, \<lparr>rows = [], entropy = 8\<rparr>)"
    by (simp add: userGorm_def userGorm_Delete_def mem_defs)
  show ?thesis
    using Delete_guard [where uv = memValidator and i = 0 and w = pamWorld]
      Delete_guard [where uv = memValidator and i = 1 and w = pamWorld] zero one store
    by simp
qed

text \<open>
  C9. The guard \<open>idGreaterThan 0\<close> answers \<open>ErrInvalidID\<close> exactly for the id \<open>0\<close>. Every
  other id reaches the store's \<open>Delete\<close>, and so does the conversion to \<open>uint\<close> of any
  negative number above \<open>-2^64\<close>, which is never \<open>0\<close>.
\<close>

theorem idGreaterThan_rejects_only_zero:
  "(fst (fst (idGreaterThan 0 user w)) = Some ErrInvalidID) = (ID user = 0) \<and>
   (fst (fst (idGreaterThan 0 user w)) = None) = (ID user \<noteq> 0) \<and>
   (i \<noteq> 0 \<longrightarrow> userValidator_Delete uv i w = Delete (uvUserDB uv) i w) \<and>
   (- (2 ^ 64) < n \<and> n < 0 \<longrightarrow>
      (word_of_int n :: 64 word) \<noteq> 0 \<and>
      userValidator_Delete uv (word_of_int n) w = Delete (uvUserDB uv) (word_of_int n) w)"
proof (intro conjI impI)
  show "(fst (fst (idGreaterThan 0 user w)) = Some ErrInvalidID) = (ID user = 0)"
    by (simp add: idGreaterThan_def)
  show "(fst (fst (idGreaterThan 0 user w)) = None) = (ID user \<noteq> 0)"
    by (simp add: idGreaterThan_def)
  show pass: "userValidator_Delete uv j w = Delete (uvUserDB uv) j w" if "j \<noteq> 0" for j
    using that by (simp add: userValidator_Delete_def idGreaterThan_def zeroUser_def)
  assume range: "- (2 ^ 64) < n \<and> n < 0"
  show nonzero: "(word_of_int n :: 64 word) \<noteq> 0"
  proof
    assume "(word_of_int n :: 64 word) = 0"
    then have "(2 :: int) ^ 64 dvd n"
      by (simp add: word_of_int_eq_0_iff)
    then obtain k where k: "n = 2 ^ 64 * k" ..
    with range have "- 1 < k" and "k < 0"
      by auto
    then show False by simp
  qed
  then show "userValidator_Delete uv (word_of_int n) w =
      Delete (uvUserDB uv) (word_of_int n) w"
    by (rule pass)
qed

theorem idGreaterThan_rejects_only_zero_witness:
  "unat (word_of_int (- 1) :: 64 word) = 18446744073709551615 \<and>
   userValidator_Delete memValidator (word_of_int (- 1)) pamWorld = (None, pamWorld) \<and>
   userValidator_Delete memValidator 7 pamWorld = (None, pamWorld)"
proof -
  have range: "- (2 ^ 64) < (- 1 :: int) \<and> (- 1 :: int) < 0" and seven: "(7 :: 64 word) \<noteq> 0"
    by simp_all
  have conv: "unat (word_of_int (- 1) :: 64 word) = 18446744073709551615"
    by (simp add: unsigned_minus_1_eq_mask mask_eq_exp_minus_1)
  have store: "Delete (uvUserDB memValidator) (word_of_int (- 1)) pamWorld = (None, pamWorld)"
    "Delete (uvUserDB memValidator) 7 pamWorld = (None, pamWorld)"
    by (simp_all add: userGorm_def userGorm_Delete_def mem_defs)
  have "userValidator_Delete memValidator (word_of_int (- 1)) pamWorld =
      Delete (uvUserDB memValidator) (word_of_int (- 1)) pamWorld"
    "userValidator_Delete memValidator 7 pamWorld = Delete (uvUserDB memValidator) 7 pamWorld"
    using idGreaterThan_rejects_only_zero [where uv = memValidator and n = "- 1"
        and i = 7 and w = pamWorld] range seven
    by blast+
  then show ?thesis
    using conv store by simp
qed

subsection \<open>ByRemember\<close>

text \<open>
  C8, as the claim states it, fails for the empty token: \<open>hmacRemember\<close> skips an empty
  \<open>Remember\<close>, so the store is asked for the empty string, not for the digest of the empty
  token, and a row without a remember hash is found.
\<close>

theorem ByRemember_empty_token_counterexample:
  "userValidator_ByRemember memValidator [] \<lparr>rows = [stored michael], entropy = 8\<rparr> =
     ((Some (stored michael), None), \<lparr>rows = [stored michael], entropy = 8\<rparr>) \<and>
   ByRemember (uvUserDB memValidator) (hmac memValidator [])
       \<lparr>rows = [stored michael], entropy = 8\<rparr> =
     ((None, Some ErrNotFound), \<lparr>rows = [stored michael], entropy = 8\<rparr>)"
  by (simp add: userValidator_ByRemember_def hmacRemember_def userGorm_def
      userGorm_ByRemember_def first_def mem_defs)

text \<open>
  C8, amended. For every non-empty token, \<open>ByRemember\<close> of the validator is the store's
  \<open>ByRemember\<close> on the keyed hash of the token, which on the service that \<open>NewUserService\<close>
  builds is the hash under \<open>hmacSecretKey\<close>; for the empty token it is the store's
  \<open>ByRemember\<close> on the empty string.
\<close>

theorem ByRemember_hashes_token:
  "(token \<noteq> [] \<longrightarrow>
      userValidator_ByRemember uv token w = ByRemember (uvUserDB uv) (hmac uv token) w \<and>
      ByRemember (NewUserService libs db) token w =
        userGorm_ByRemember db (NewHMAC libs hmacSecretKey token) w) \<and>
   (token = [] \<longrightarrow>
      userValidator_ByRemember uv token w = ByRemember (uvUserDB uv) [] w)"
  by (simp add: userValidator_ByRemember_def hmacRemember_def zeroUser_def chain_defs)

theorem ByRemember_hashes_token_witness:
  "userValidator_ByRemember memValidator ''fresh-token'' pamWorld =
     ((Some pamRow, None), pamWorld) \<and>
   ByRemember (NewUserService stubLibs memDB) ''fresh-token'' pamWorld =
     ((Some pamRow, None), pamWorld) \<and>
   userValidator_ByRemember memValidator [] pamWorld = ((None, Some ErrNotFound), pamWorld)"
proof -
  have given: "''fresh-token'' \<noteq> []"
    by simp
  have store: "ByRemember (uvUserDB memValidator) (hmac memValidator ''fresh-token'') pamWorld =
      ((Some pamRow, None), pamWorld)"
    "userGorm_ByRemember memDB (NewHMAC stubLibs hmacSecretKey ''fresh-token'') pamWorld =
      ((Some pamRow, None), pamWorld)"
    "ByRemember (uvUserDB memValidator) [] pamWorld = ((None, Some ErrNotFound), pamWorld)"
    by (simp_all add: userGorm_def userGorm_ByRemember_def first_def mem_defs)
  show ?thesis
    using ByRemember_hashes_token [where uv = memValidator and libs = stubLibs and db = memDB
        and token = "''fresh-token''" and w = pamWorld]
      ByRemember_hashes_token [where uv = memValidator and token = "[]" and w = pamWorld]
      given store
    by simp
qed

end
